theory Spec2Isabelle
  imports Main "HOL-Library.Sublist"
begin

section \<open>Strings of the host language\<close>

text \<open>
  A string of the host language is the list of its UTF-16 code units, each a number.
  \<open>str\<close> turns a literal of plain characters into such a string.
\<close>

type_synonym code_unit = nat

type_synonym jsstring = "code_unit list"

definition str :: "string \<Rightarrow> jsstring" where
  "str s = map of_char s"

text \<open>
  \<open>String.prototype.trim\<close> removes white space and line terminators from both ends:
  TAB, LF, VT, FF, CR, SPACE, NO-BREAK SPACE, U+1680, U+2000..U+200A, U+2028, U+2029,
  U+202F, U+205F, U+3000 and U+FEFF.
\<close>

definition is_whitespace :: "code_unit \<Rightarrow> bool" where
  "is_whitespace u =
     (u \<in> set [0x09, 0x0A, 0x0B, 0x0C, 0x0D, 0x20, 0xA0, 0x1680, 0x2028, 0x2029, 0x202F,
                0x205F, 0x3000, 0xFEFF]
      \<or> (0x2000 \<le> u \<and> u \<le> 0x200A))"

definition trim :: "jsstring \<Rightarrow> jsstring" where
  "trim s = rev (dropWhile is_whitespace (rev (dropWhile is_whitespace s)))"

text \<open>
  \<open>String.prototype.toLowerCase\<close> is the lower-casing of the Unicode standard without
  locale. It is written out here for strings over the code units below U+0100, the Greek
  letters U+0391..U+03CE and U+0130:
  \<^item> a capital \<open>A\<close>..\<open>Z\<close>, a Latin-1 capital (U+00C0..U+00DE without the multiplication
    sign U+00D7) and a Greek capital (U+0391..U+03AB) become the letter 32 code units
    later;
  \<^item> U+0130 (capital I with dot above) becomes the two code units U+0069 U+0307;
  \<^item> capital sigma U+03A3 becomes the final sigma U+03C2, and not U+03C3, when it ends a
    word: before it stands a cased letter, with nothing but case-ignorable characters in
    between, and after it no cased letter follows in the same way;
  \<^item> every other code unit stays.
  Code units outside this range are left alone and count as neither cased nor
  case-ignorable, which is what the engine does for characters without case only.
\<close>

definition capital :: "code_unit \<Rightarrow> bool" where
  "capital u = ((0x41 \<le> u \<and> u \<le> 0x5A) \<or> (0xC0 \<le> u \<and> u \<le> 0xDE \<and> u \<noteq> 0xD7))"

definition greek_capital :: "code_unit \<Rightarrow> bool" where
  "greek_capital u = (0x391 \<le> u \<and> u \<le> 0x3AB \<and> u \<noteq> 0x3A2)"

definition cased :: "code_unit \<Rightarrow> bool" where
  "cased u =
     ((0x41 \<le> u \<and> u \<le> 0x5A) \<or> (0x61 \<le> u \<and> u \<le> 0x7A) \<or>
      u = 0xAA \<or> u = 0xB5 \<or> u = 0xBA \<or>
      (0xC0 \<le> u \<and> u \<le> 0xFF \<and> u \<noteq> 0xD7 \<and> u \<noteq> 0xF7) \<or>
      u = 0x130 \<or>
      (0x391 \<le> u \<and> u \<le> 0x3CE \<and> u \<noteq> 0x3A2))"

definition case_ignorable :: "code_unit \<Rightarrow> bool" where
  "case_ignorable u =
     (u \<in> set [0x27, 0x2E, 0x3A, 0x5E, 0x60, 0xA8, 0xAD, 0xAF, 0xB4, 0xB7, 0xB8])"

definition toLowerCase_unit :: "code_unit \<Rightarrow> jsstring" where
  "toLowerCase_unit u =
     (if capital u then [u + 32]
      else if greek_capital u then [u + 32]
      else if u = 0x130 then [0x69, 0x307]
      else [u])"

definition cased_next :: "jsstring \<Rightarrow> bool" where
  "cased_next s = (case dropWhile case_ignorable s of [] \<Rightarrow> False | u # _ \<Rightarrow> cased u)"

text \<open>
  \<open>lower_from seen rest\<close> lower-cases \<open>rest\<close>; \<open>seen\<close> is what stands before it in the
  string, last code unit first.
\<close>

fun lower_from :: "jsstring \<Rightarrow> jsstring \<Rightarrow> jsstring" where
  "lower_from seen [] = []"
| "lower_from seen (u # rest) =
     (if u = 0x3A3 \<and> cased_next seen \<and> \<not> cased_next rest then [0x3C2]
      else toLowerCase_unit u)
     @ lower_from (u # seen) rest"

definition toLowerCase :: "jsstring \<Rightarrow> jsstring" where
  "toLowerCase s = lower_from [] s"

text \<open>\<open>String.prototype.includes\<close> (\<open>str_includes\<close>) tests for a contiguous occurrence.\<close>

fun str_includes :: "jsstring \<Rightarrow> jsstring \<Rightarrow> bool" where
  "str_includes [] q = (q = [])"
| "str_includes (c # cs) q = (prefix q (c # cs) \<or> str_includes cs q)"

section \<open>Data model\<close>

text \<open>
  The interfaces \<open>Service\<close>, \<open>Tab\<close>, \<open>Config\<close> and \<open>SearchResult\<close> of the dashboard
  component. Optional members (\<open>alt_url?\<close>, \<open>icon?\<close>) are options. The members \<open>name\<close>,
  \<open>icon\<close> and \<open>id\<close> of \<open>Tab\<close> and \<open>description\<close> of the tooltip carry a prefix, since a
  record field is a constant of the theory.
\<close>

record Service =
  name :: jsstring
  url :: jsstring
  description :: jsstring
  alt_url :: "jsstring option"
  icon :: "jsstring option"

record Tooltip =
  title :: jsstring
  tooltip_description :: jsstring
  location :: jsstring
  specs :: jsstring

record Tab =
  tab_name :: jsstring
  key :: jsstring
  tab_id :: jsstring
  mainUrl :: jsstring
  tab_icon :: jsstring
  tooltip :: Tooltip
  services :: "Service list"

record Config =
  tabs :: "Tab list"

record SearchResult =
  service :: Service
  serverName :: jsstring
  serverKey :: jsstring

text \<open>
  \<open>config.js\<close> is plain script: what it leaves in \<open>window.dashboardConfig\<close> is not
  checked against the interface \<open>Config\<close>. A truthy value either has a \<open>tabs\<close> array
  (\<open>Shaped\<close>) or has none (\<open>Shapeless\<close>, as \<open>{}\<close>); \<open>None\<close> of
  \<^typ>\<open>'a option\<close> is \<open>undefined\<close>/\<open>null\<close>.
\<close>

datatype document = Shapeless | Shaped Config

datatype js_error = TypeError | SyntaxError | Error jsstring

section \<open>Search\<close>

text \<open>
  The body of the two nested \<open>forEach\<close> loops of \<open>searchResults\<close>: \<open>query\<close> is the
  lower-cased search text, \<open>results.push\<close> appends at the end. An absent \<open>alt_url\<close>
  makes \<open>matchesAltUrl\<close> \<open>undefined\<close>, which is falsy.
\<close>

definition service_matches :: "jsstring \<Rightarrow> Service \<Rightarrow> bool" where
  "service_matches query s =
     (let matchesName = str_includes (toLowerCase (name s)) query;
          matchesDescription = str_includes (toLowerCase (description s)) query;
          matchesUrl = str_includes (toLowerCase (url s)) query;
          matchesAltUrl = (case alt_url s of None \<Rightarrow> False
                           | Some a \<Rightarrow> str_includes (toLowerCase a) query)
      in matchesName \<or> matchesDescription \<or> matchesUrl \<or> matchesAltUrl)"

definition search_services :: "jsstring \<Rightarrow> Tab \<Rightarrow> SearchResult list \<Rightarrow> SearchResult list" where
  "search_services query tab results =
     fold (\<lambda>s results.
             if service_matches query s
             then results @ [\<lparr>service = s, serverName = tab_name tab, serverKey = key tab\<rparr>]
             else results)
          (services tab) results"

definition search_tabs :: "jsstring \<Rightarrow> Tab list \<Rightarrow> SearchResult list" where
  "search_tabs query ts = fold (\<lambda>tab results. search_services query tab results) ts []"

text \<open>
  \<open>searchResults\<close>: the guard trims the search text, the query that is matched is the
  untrimmed text in lower case. On a stored value without \<open>tabs\<close> the call
  \<open>config.tabs.forEach\<close> raises a TypeError.
\<close>

definition searchResults :: "document option \<Rightarrow> jsstring \<Rightarrow> js_error + SearchResult list" where
  "searchResults config searchQuery =
     (if trim searchQuery = [] then Inr []
      else case config of
             None \<Rightarrow> Inr []
           | Some Shapeless \<Rightarrow> Inl TypeError
           | Some (Shaped c) \<Rightarrow> Inr (search_tabs (toLowerCase searchQuery) (tabs c)))"











text \<open>A configuration with two servers, used to run the definitions.\<close>

definition plex :: Service where
  "plex = \<lparr>name = str ''Plex'', url = str ''http://x:32400'', description = str ''stream'',
           alt_url = None, icon = None\<rparr>"

definition gitea :: Service where
  "gitea = \<lparr>name = str ''Gitea'', url = str ''http://y:3000'', description = str ''git'',
            alt_url = None, icon = None\<rparr>"

definition no_tooltip :: Tooltip where
  "no_tooltip = \<lparr>title = [], tooltip_description = [], location = [], specs = []\<rparr>"

definition tab_a :: Tab where
  "tab_a = \<lparr>tab_name = str ''A'', key = str ''a'', tab_id = str ''a-server'',
            mainUrl = str ''http://x'', tab_icon = str ''home'', tooltip = no_tooltip,
            services = [plex]\<rparr>"

definition tab_b :: Tab where
  "tab_b = \<lparr>tab_name = str ''B'', key = str ''b'', tab_id = str ''b-server'',
            mainUrl = str ''http://y'', tab_icon = str ''server'', tooltip = no_tooltip,
            services = [gitea]\<rparr>"

definition two_tabs :: Config where
  "two_tabs = \<lparr>tabs = [tab_a, tab_b]\<rparr>"



section \<open>The configuration script\<close>

text \<open>
  \<open>String.prototype.replace\<close> with a string pattern replaces the first occurrence of the
  pattern only. \<open>split_at_first\<close> finds it: the text before and the text after the
  leftmost occurrence. The replacement text is expanded as the language defines it
  (\<open>GetSubstitution\<close> with no captures): \<open>$$\<close> is a dollar sign, \<open>$&\<close> the matched
  text, \<open>$`\<close> the text before the match, \<open>$'\<close> the text after it, and every other
  character stands for itself. The code units tested are \<open>$\<close> (0x24), \<open>&\<close> (0x26),
  the backquote (0x60) and the quote (0x27).
\<close>

fun split_at_first :: "jsstring \<Rightarrow> jsstring \<Rightarrow> (jsstring \<times> jsstring) option" where
  "split_at_first pat [] = (if pat = [] then Some ([], []) else None)"
| "split_at_first pat (c # cs) =
     (if prefix pat (c # cs) then Some ([], drop (length pat) (c # cs))
      else map_option (\<lambda>(front, back). (c # front, back)) (split_at_first pat cs))"

fun GetSubstitution :: "jsstring \<Rightarrow> jsstring \<Rightarrow> jsstring \<Rightarrow> jsstring \<Rightarrow> jsstring" where
  "GetSubstitution matched front back [] = []"
| "GetSubstitution matched front back [c] = [c]"
| "GetSubstitution matched front back (c # d # r) =
     (if c = 0x24 then
        (if d = 0x24 then 0x24 # GetSubstitution matched front back r
         else if d = 0x26 then matched @ GetSubstitution matched front back r
         else if d = 0x60 then front @ GetSubstitution matched front back r
         else if d = 0x27 then back @ GetSubstitution matched front back r
         else c # GetSubstitution matched front back (d # r))
      else c # GetSubstitution matched front back (d # r))"

definition str_replace :: "jsstring \<Rightarrow> jsstring \<Rightarrow> jsstring \<Rightarrow> jsstring" where
  "str_replace s pat replacement =
     (case split_at_first pat s of
        None \<Rightarrow> s
      | Some (front, back) \<Rightarrow> front @ GetSubstitution pat front back replacement @ back)"

text \<open>
  The block at the end of \<open>config.js\<close>, run with \<open>currentHost = window.location.hostname\<close>:
  each \<open>forEach\<close> rewrites the elements of its array in place. \<open>currentProtocol\<close> is read
  there and never used. An \<open>alt_url\<close> that is absent or empty is falsy and stays as it is.
\<close>

definition replace_localhost :: "jsstring \<Rightarrow> jsstring \<Rightarrow> jsstring" where
  "replace_localhost currentHost u =
     (if str_includes u (str ''localhost'') then str_replace u (str ''localhost'') currentHost
      else u)"

definition normalize_service :: "jsstring \<Rightarrow> Service \<Rightarrow> Service" where
  "normalize_service currentHost s =
     (let s1 = s\<lparr>url := replace_localhost currentHost (url s)\<rparr>
      in case alt_url s1 of
           None \<Rightarrow> s1
         | Some a \<Rightarrow>
             if a \<noteq> [] \<and> str_includes a (str ''localhost'')
             then s1\<lparr>alt_url := Some (str_replace a (str ''localhost'') currentHost)\<rparr>
             else s1)"

definition normalize_tab :: "jsstring \<Rightarrow> Tab \<Rightarrow> Tab" where
  "normalize_tab currentHost tab =
     (let t1 = tab\<lparr>mainUrl := replace_localhost currentHost (mainUrl tab)\<rparr>
      in t1\<lparr>services := map (normalize_service currentHost) (services t1)\<rparr>)"

definition normalize_config :: "jsstring \<Rightarrow> Config \<Rightarrow> Config" where
  "normalize_config currentHost c = c\<lparr>tabs := map (normalize_tab currentHost) (tabs c)\<rparr>"

text \<open>
  Running \<open>config.js\<close>: the first statement assigns the object literal of the file to
  \<open>window.dashboardConfig\<close>, the block above then rewrites it. The argument is the value of
  the literal. When it has no \<open>tabs\<close> the block raises inside the script, after the
  assignment; the script's \<open>load\<close> event is delivered all the same.
\<close>

definition run_config_js :: "jsstring \<Rightarrow> document option \<Rightarrow> document option" where
  "run_config_js currentHost literal =
     (case literal of
        None \<Rightarrow> None
      | Some Shapeless \<Rightarrow> Some Shapeless
      | Some (Shaped c) \<Rightarrow> Some (Shaped (normalize_config currentHost c)))"

section \<open>View state and loading\<close>

text \<open>
  A notification as \<open>toast\<close> receives it; \<open>duration\<close> is in milliseconds. The titles are
  the characters the source file holds.
\<close>

record toast =
  toast_title :: jsstring
  toast_description :: jsstring
  toast_destructive :: bool
  toast_duration :: "nat option"

definition copied_toast :: "jsstring \<Rightarrow> toast" where
  "copied_toast label =
     \<lparr>toast_title = [0xE2, 0x153, 0x2026] @ str '' Copied!'',
      toast_description = label @ str '' URL copied'',
      toast_destructive = False, toast_duration = Some 1500\<rparr>"

definition copy_failed_toast :: toast where
  "copy_failed_toast =
     \<lparr>toast_title = str ''Copy Failed'',
      toast_description = str ''Long press the URL to copy manually'',
      toast_destructive = True, toast_duration = Some 3000\<rparr>"

definition configuration_error_toast :: toast where
  "configuration_error_toast =
     \<lparr>toast_title = str ''Configuration Error'',
      toast_description =
        str ''Failed to load server configuration. Please check the config.js file.'',
      toast_destructive = True, toast_duration = None\<rparr>"

definition reloaded_toast :: toast where
  "reloaded_toast =
     \<lparr>toast_title = [0xF0, 0x178, 0x201D, 0x201E] @ str '' Reloaded'',
      toast_description = str ''Configuration reloaded from config.js'',
      toast_destructive = False, toast_duration = Some 2000\<rparr>"

definition reload_failed_toast :: toast where
  "reload_failed_toast =
     \<lparr>toast_title = str ''Reload Failed'',
      toast_description = str ''Failed to reload configuration'',
      toast_destructive = True, toast_duration = Some 3000\<rparr>"

text \<open>
  The state variables of \<open>ServerDashboard\<close> in the order of their \<open>useState\<close> calls,
  followed by the global \<open>window.dashboardConfig\<close> and the notifications shown so far.
\<close>

record state =
  config :: "document option"
  loading :: bool
  error :: "jsstring option"
  activeTab :: jsstring
  copiedUrl :: "jsstring option"
  searchQuery :: jsstring
  isMobile :: bool
  sidebarOpen :: bool
  mounted :: bool
  dashboardConfig :: "document option"
  toasts :: "toast list"

definition initial_state :: state where
  "initial_state =
     \<lparr>config = None, loading = True, error = None, activeTab = [], copiedUrl = None,
      searchQuery = [], isMobile = False, sidebarOpen = False, mounted = False,
      dashboardConfig = None, toasts = []\<rparr>"

datatype outcome = Resolved | Rejected

text \<open>
  The text \<open>err.message\<close> of a raised error. The texts of a TypeError and a SyntaxError
  are the engine's; those of V8 for the two places where the dashboard raises them are
  taken.
\<close>

fun message :: "js_error \<Rightarrow> jsstring" where
  "message (Error m) = m"
| "message TypeError = str ''Cannot read properties of undefined (reading 'length')''"
| "message SyntaxError = str ''Invalid regular expression: Unterminated group''"

text \<open>
  \<open>loadConfig\<close> up to the point where the script element is appended: the two setters.
  The handlers it installs close over the \<open>activeTab\<close> of the render that called
  \<open>loadConfig\<close>; they take it as the argument \<open>activeTab0\<close>.
\<close>

definition loadConfig_start :: "state \<Rightarrow> state" where
  "loadConfig_start s = s\<lparr>loading := True, error := None\<rparr>"

text \<open>
  The \<open>try\<close> block of \<open>script.onload\<close>. A setter that ran before a \<open>throw\<close> has taken
  effect, so the block returns the state it reached together with the error, if any.
\<close>

definition onload_try :: "jsstring \<Rightarrow> state \<Rightarrow> state \<times> js_error option" where
  "onload_try activeTab0 s =
     (case dashboardConfig s of
        None \<Rightarrow> (s, Some (Error (str ''Configuration not found in config.js'')))
      | Some d \<Rightarrow>
          (let s1 = s\<lparr>config := Some d\<rparr>
           in if activeTab0 = [] then
                (case d of
                   Shapeless \<Rightarrow> (s1, Some TypeError)
                 | Shaped c \<Rightarrow>
                     (case tabs c of
                        [] \<Rightarrow> (s1, None)
                      | t # _ \<Rightarrow> (s1\<lparr>activeTab := key t\<rparr>, None)))
              else (s1, None)))"

definition script_onload :: "jsstring \<Rightarrow> state \<Rightarrow> state \<times> outcome" where
  "script_onload activeTab0 s =
     (case onload_try activeTab0 s of
        (s1, None) \<Rightarrow> (s1\<lparr>loading := False\<rparr>, Resolved)
      | (s1, Some err) \<Rightarrow> (s1\<lparr>error := Some (message err), loading := False\<rparr>, Rejected))"

definition script_onerror :: "state \<Rightarrow> state \<times> outcome" where
  "script_onerror s =
     (s\<lparr>error := Some (str ''Failed to load config.js file''), loading := False\<rparr>, Rejected)"

text \<open>
  The completion of one load. Either the script could not be fetched (\<open>onerror\<close>); or it
  was fetched and run, assigning the value of its literal, after which \<open>onload\<close> reads
  \<open>window.dashboardConfig\<close> (\<open>Fetched\<close>); or it was fetched and assigned nothing, as a file
  with a syntax error does, so that \<open>onload\<close> finds the global as the previous script
  left it (\<open>FetchedUnassigning\<close>).
\<close>

datatype fetched = FetchFailed | Fetched "document option" | FetchedUnassigning

definition complete_load :: "jsstring \<Rightarrow> jsstring \<Rightarrow> fetched \<Rightarrow> state \<Rightarrow> state \<times> outcome" where
  "complete_load currentHost activeTab0 f s =
     (case f of
        FetchFailed \<Rightarrow> script_onerror s
      | Fetched literal \<Rightarrow>
          script_onload activeTab0 (s\<lparr>dashboardConfig := run_config_js currentHost literal\<rparr>)
      | FetchedUnassigning \<Rightarrow> script_onload activeTab0 s)"

text \<open>
  The callers of \<open>loadConfig\<close>: the effect that runs on mount reports a rejection with a
  notification, \<open>reloadConfig\<close> reports both outcomes.
\<close>

definition mount_load_settled :: "state \<times> outcome \<Rightarrow> state" where
  "mount_load_settled r =
     (case r of
        (s, Resolved) \<Rightarrow> s
      | (s, Rejected) \<Rightarrow> s\<lparr>toasts := toasts s @ [configuration_error_toast]\<rparr>)"

definition reloadConfig_settled :: "state \<times> outcome \<Rightarrow> state" where
  "reloadConfig_settled r =
     (case r of
        (s, Resolved) \<Rightarrow> s\<lparr>toasts := toasts s @ [reloaded_toast]\<rparr>
      | (s, Rejected) \<Rightarrow> s\<lparr>toasts := toasts s @ [reload_failed_toast]\<rparr>)"

definition handleTabChange :: "jsstring \<Rightarrow> state \<Rightarrow> state" where
  "handleTabChange tabKey s =
     (let s1 = s\<lparr>activeTab := tabKey\<rparr>
      in if isMobile s then s1\<lparr>sidebarOpen := False\<rparr> else s1)"

section \<open>Rendering\<close>

text \<open>
  \<open>new RegExp(source, "gi")\<close> raises a SyntaxError on a source that is not a pattern.
  \<open>pattern_scan\<close> follows the bracket structure of a pattern without the \<open>u\<close> and \<open>v\<close>
  flags: a backslash (0x5C) takes the next character with it, \<open>[\<close> (0x5B) opens a class
  that the next unescaped \<open>]\<close> (0x5D) closes, and outside a class \<open>(\<close> (0x28) opens a
  group and \<open>)\<close> (0x29) closes one. It answers \<open>True\<close> for a backslash at the end, a class
  or a group left open and a \<open>)\<close> that closes nothing: each of them a syntax error. The
  other syntax errors of the pattern grammar (a quantifier with nothing to repeat, a range
  out of order, ...) are not followed; \<open>RegExp_rejects\<close> is a lower bound of what the
  constructor rejects.
\<close>

fun pattern_scan :: "nat \<Rightarrow> bool \<Rightarrow> jsstring \<Rightarrow> bool" where
  "pattern_scan depth in_class [] = (in_class \<or> depth \<noteq> 0)"
| "pattern_scan depth in_class (c # cs) =
     (if c = 0x5C then (case cs of [] \<Rightarrow> True | d # r \<Rightarrow> pattern_scan depth in_class r)
      else if in_class then pattern_scan depth (c \<noteq> 0x5D) cs
      else if c = 0x5B then pattern_scan depth True cs
      else if c = 0x28 then pattern_scan (Suc depth) False cs
      else if c = 0x29 then (depth = 0 \<or> pattern_scan (depth - 1) False cs)
      else pattern_scan depth False cs)"

definition RegExp_rejects :: "jsstring \<Rightarrow> bool" where
  "RegExp_rejects source = pattern_scan 0 False source"

text \<open>
  \<open>highlightText\<close>: the query goes into the pattern as it was typed. Which pieces of the
  text end up marked is the work of the platform's matcher and stays symbolic
  (\<open>Marked text source\<close>); what is followed is whether the call returns.
\<close>

datatype highlighted = Plain jsstring | Marked jsstring jsstring

definition highlightText :: "jsstring \<Rightarrow> jsstring \<Rightarrow> js_error + highlighted" where
  "highlightText text query =
     (if trim query = [] then Inr (Plain text)
      else (let source = str ''('' @ query @ str '')''
            in if RegExp_rejects source then Inl SyntaxError
               else Inr (Marked text source)))"

text \<open>
  One card of the search panel: \<open>highlightText\<close> on the name, the description and the
  url, and on the alternative url when there is a non-empty one.
\<close>

record card =
  card_name :: highlighted
  card_description :: highlighted
  card_server :: jsstring
  card_url :: highlighted
  card_alt_url :: "highlighted option"

definition render_result :: "jsstring \<Rightarrow> SearchResult \<Rightarrow> js_error + card" where
  "render_result q r =
     (case highlightText (name (service r)) q of
        Inl e \<Rightarrow> Inl e
      | Inr n \<Rightarrow>
     (case highlightText (description (service r)) q of
        Inl e \<Rightarrow> Inl e
      | Inr d \<Rightarrow>
     (case highlightText (url (service r)) q of
        Inl e \<Rightarrow> Inl e
      | Inr u \<Rightarrow>
     (case alt_url (service r) of
        None \<Rightarrow> Inr \<lparr>card_name = n, card_description = d, card_server = serverName r,
                     card_url = u, card_alt_url = None\<rparr>
      | Some a \<Rightarrow>
          if a = [] then Inr \<lparr>card_name = n, card_description = d, card_server = serverName r,
                              card_url = u, card_alt_url = None\<rparr>
          else (case highlightText a q of
                  Inl e \<Rightarrow> Inl e
                | Inr h \<Rightarrow> Inr \<lparr>card_name = n, card_description = d,
                               card_server = serverName r, card_url = u,
                               card_alt_url = Some h\<rparr>)))))"

fun render_results :: "jsstring \<Rightarrow> SearchResult list \<Rightarrow> js_error + card list" where
  "render_results q [] = Inr []"
| "render_results q (r # rs) =
     (case render_result q r of
        Inl e \<Rightarrow> Inl e
      | Inr c \<Rightarrow> (case render_results q rs of Inl e \<Rightarrow> Inl e | Inr cs \<Rightarrow> Inr (c # cs)))"

text \<open>
  \<open>activeTabData\<close>: \<open>config?.tabs.find(...)\<close>. The optional chain guards \<open>config\<close> only,
  so a stored value without \<open>tabs\<close> raises a TypeError.
\<close>

definition activeTabData :: "document option \<Rightarrow> jsstring \<Rightarrow> js_error + Tab option" where
  "activeTabData cfg tabKey =
     (case cfg of
        None \<Rightarrow> Inr None
      | Some Shapeless \<Rightarrow> Inl TypeError
      | Some (Shaped c) \<Rightarrow> Inr (find (\<lambda>tab. key tab = tabKey) (tabs c)))"

text \<open>
  What one render of \<open>ServerDashboard\<close> shows, or the error it raises. \<open>searchResults\<close>
  and \<open>activeTabData\<close> are computed first, in this order, then come the loading view, the
  error view and the dashboard. In the dashboard both layouts show the search panel when
  \<open>searchQuery\<close> is truthy (a non-empty string) and otherwise the services of the active
  tab, if \<open>activeTabData\<close> found one.
\<close>

datatype layout = Mobile | Desktop

record dashboard =
  dashboard_layout :: layout
  search_panel :: "card list option"
  tab_content :: "Tab option"

datatype view = LoadingView | ErrorView jsstring | Dashboard dashboard

definition truthy :: "jsstring option \<Rightarrow> bool" where
  "truthy v = (v \<noteq> None \<and> v \<noteq> Some [])"

definition render :: "state \<Rightarrow> js_error + view" where
  "render s =
     (case searchResults (config s) (searchQuery s) of
        Inl e \<Rightarrow> Inl e
      | Inr results \<Rightarrow>
     (case activeTabData (config s) (activeTab s) of
        Inl e \<Rightarrow> Inl e
      | Inr tabData \<Rightarrow>
          if loading s \<or> \<not> mounted s then Inr LoadingView
          else if truthy (error s) \<or> config s = None then
            Inr (ErrorView (case error s of
                              None \<Rightarrow> str ''Failed to load server configuration''
                            | Some m \<Rightarrow>
                                if m = [] then str ''Failed to load server configuration''
                                else m))
          else if searchQuery s \<noteq> [] then
            (case render_results (searchQuery s) results of
               Inl e \<Rightarrow> Inl e
             | Inr cards \<Rightarrow>
                 Inr (Dashboard \<lparr>dashboard_layout = (if isMobile s then Mobile else Desktop),
                                 search_panel = Some cards, tab_content = None\<rparr>))
          else
            Inr (Dashboard \<lparr>dashboard_layout = (if isMobile s then Mobile else Desktop),
                            search_panel = None, tab_content = tabData\<rparr>)))"

section \<open>Clipboard\<close>

text \<open>
  \<open>copyToClipboard\<close> starts with a vibration request, which touches no state and is
  left out. What the platform does when the function runs: whether
  \<open>navigator.clipboard && window.isSecureContext\<close> holds, whether the promise of
  \<open>writeText\<close> is fulfilled, and what \<open>document.execCommand("copy")\<close> does.
\<close>

datatype exec_result = ReturnsTrue | ReturnsFalse | Throws

record clipboard =
  secure_clipboard :: bool
  writeText_fulfilled :: bool
  execCommand :: exec_result

text \<open>
  The \<open>try\<close> block up to the point where the copy has happened: the secure write when
  it is available, else the hidden text area and \<open>execCommand\<close>.
\<close>

definition copy_try :: "clipboard \<Rightarrow> js_error option" where
  "copy_try env =
     (if secure_clipboard env then
        (if writeText_fulfilled env then None else Some (Error (str ''writeText rejected'')))
      else
        (case execCommand env of
           ReturnsTrue \<Rightarrow> None
         | ReturnsFalse \<Rightarrow> Some (Error (str ''Copy command failed''))
         | Throws \<Rightarrow> Some (Error (str ''execCommand raised''))))"

text \<open>
  \<open>copyToClipboard\<close> is an \<open>async\<close> function without a \<open>return\<close> statement. On success
  the copied url is remembered and the "Copied" toast is shown. Every error of the \<open>try\<close>
  block lands in the \<open>catch\<close>: under the comment "Show URL in a prompt as fallback" it
  selects the text of a hidden element on iOS, removes the element again, shows no
  prompt and touches no state, and then shows the destructive toast. The second component
  of the result is how the promise settles, which is all the caller receives: it is
  fulfilled, with no value, on both paths.
\<close>

definition copyToClipboard :: "clipboard \<Rightarrow> jsstring \<Rightarrow> jsstring \<Rightarrow> state \<Rightarrow> state \<times> outcome" where
  "copyToClipboard env u label s =
     (case copy_try env of
        None \<Rightarrow> (s\<lparr>copiedUrl := Some u, toasts := toasts s @ [copied_toast label]\<rparr>, Resolved)
      | Some err \<Rightarrow> (s\<lparr>toasts := toasts s @ [copy_failed_toast]\<rparr>, Resolved))"

text \<open>The timer started on success, 1.5 seconds later.\<close>

definition copied_timeout :: "state \<Rightarrow> state" where
  "copied_timeout s = s\<lparr>copiedUrl := None\<rparr>"

section \<open>Runs of the dashboard\<close>

text \<open>
  The state once the effects of the first render have run (\<open>loadConfig\<close> has been
  called with \<open>activeTab\<close> still empty, \<open>mounted\<close> is set), and the state when that first
  load has settled on a script whose literal is \<open>literal\<close>.
\<close>

definition mounted_state :: state where
  "mounted_state = (loadConfig_start initial_state)\<lparr>mounted := True\<rparr>"

definition after_first_load :: "jsstring \<Rightarrow> document option \<Rightarrow> state" where
  "after_first_load currentHost literal =
     mount_load_settled (complete_load currentHost [] (Fetched literal) mounted_state)"

text \<open>Configurations for the runs below; \<open>media_tab\<close> is a server of the shipped \<open>config.js\<close>
  with one of its services.\<close>

definition stale_config :: Config where
  "stale_config = \<lparr>tabs = [tab_a]\<rparr>"

definition empty_config :: Config where
  "empty_config = \<lparr>tabs = []\<rparr>"

definition localhost_tab :: Tab where
  "localhost_tab =
     \<lparr>tab_name = str ''Local'', key = str ''local'', tab_id = str ''local-server'',
      mainUrl = str ''http://localhost:8080/?next=http://localhost:9000'',
      tab_icon = str ''home'', tooltip = no_tooltip, services = []\<rparr>"

definition localhost_config :: Config where
  "localhost_config = \<lparr>tabs = [localhost_tab]\<rparr>"

definition minio :: Service where
  "minio = \<lparr>name = str ''MinIO'', url = str ''http://192.168.0.120:9001'',
            description = str ''Object storage service (S3-compatible)'',
            alt_url = None, icon = None\<rparr>"

definition media_tab :: Tab where
  "media_tab =
     \<lparr>tab_name = str ''Media Storage'', key = str ''media'', tab_id = str ''media-server'',
      mainUrl = str ''http://192.168.0.120'', tab_icon = str ''film'',
      tooltip = \<lparr>title = str ''NAS for Media'',
                 tooltip_description = str ''Storage for movies, TV, backups'',
                 location = str ''Storage Shelf'', specs = str ''8-bay NAS with 40TB''\<rparr>,
      services = [minio]\<rparr>"

definition media_config :: Config where
  "media_config = \<lparr>tabs = [media_tab]\<rparr>"

text \<open>
  Two platforms: one without the secure clipboard where \<open>execCommand\<close> answers
  \<open>false\<close>, and one where the secure write succeeds.
\<close>

definition no_clipboard :: clipboard where
  "no_clipboard = \<lparr>secure_clipboard = False, writeText_fulfilled = False,
                   execCommand = ReturnsFalse\<rparr>"

definition working_clipboard :: clipboard where
  "working_clipboard = \<lparr>secure_clipboard = True, writeText_fulfilled = True,
                        execCommand = ReturnsTrue\<rparr>"

section \<open>Facts about the string primitives\<close>

lemma str_includes_sublist: "str_includes s q = sublist q s"
  by (induction s) (auto simp: sublist_Cons_right)

lemma dropWhile_all_iff: "(\<forall>x \<in> set (dropWhile P s). P x) \<longleftrightarrow> (\<forall>x \<in> set s. P x)"
  by (induction s) auto

lemma trim_empty_iff: "trim s = [] \<longleftrightarrow> (\<forall>c \<in> set s. is_whitespace c)"
  by (simp add: trim_def dropWhile_all_iff)












section \<open>Unfolding the definitions on concrete runs\<close>

lemmas search_eval =
  searchResults_def trim_def is_whitespace_def toLowerCase_def toLowerCase_unit_def
  capital_def greek_capital_def cased_next_def cased_def case_ignorable_def search_tabs_def
  search_services_def service_matches_def str_def Let_def

lemmas samples =
  two_tabs_def tab_a_def tab_b_def plex_def gitea_def no_tooltip_def

lemmas load_eval =
  complete_load_def script_onload_def script_onerror_def onload_try_def run_config_js_def
  normalize_config_def normalize_tab_def normalize_service_def replace_localhost_def
  str_replace_def loadConfig_start_def mounted_state_def initial_state_def
  after_first_load_def mount_load_settled_def handleTabChange_def

lemmas render_eval =
  render_def activeTabData_def truthy_def render_result_def highlightText_def
  RegExp_rejects_def

lemmas run_samples =
  stale_config_def empty_config_def media_config_def media_tab_def minio_def
  localhost_config_def localhost_tab_def

section \<open>Facts about the configuration script and the load\<close>

lemma GetSubstitution_plain:
  "0x24 \<notin> set replacement \<Longrightarrow> GetSubstitution m b a replacement = replacement"
  by (induction m b a replacement rule: GetSubstitution.induct) auto

lemma split_at_first_None: "split_at_first pat s = None \<longleftrightarrow> \<not> sublist pat s"
  by (induction s) (auto simp: sublist_Cons_right)

lemma prefix_append_short:
  assumes "prefix xs (ys @ zs)" and "length xs \<le> length ys"
  shows "prefix xs ys"
proof -
  from assms(1) obtain w where "ys @ zs = xs @ w"
    by (auto simp: prefix_def)
  then have "take (length xs) (ys @ zs) = xs"
    by (metis append_eq_conv_conj)
  with assms(2) have "take (length xs) ys = xs"
    by simp
  then show ?thesis
    by (metis take_is_prefix)
qed

lemma split_at_first_leftmost:
  assumes "pat \<noteq> []" and "\<not> sublist pat (pre @ butlast pat)"
  shows "split_at_first pat (pre @ pat @ post) = Some (pre, post)"
  using assms(2)
proof (induction pre)
  case Nil
  from assms(1) obtain c cs where "pat @ post = c # cs"
    by (cases pat) auto
  moreover have "prefix pat (pat @ post)" by simp
  moreover have "drop (length pat) (pat @ post) = post" by simp
  ultimately show ?case
    by (metis append_Nil split_at_first.simps(2))
next
  case (Cons x pre)
  have dec: "(x # pre) @ pat @ post = ((x # pre) @ butlast pat) @ (last pat # post)"
    using assms(1) by (metis append.assoc append_Cons append_Nil append_butlast_last_id)
  have "\<not> prefix pat ((x # pre) @ pat @ post)"
  proof
    assume "prefix pat ((x # pre) @ pat @ post)"
    then have "prefix pat (((x # pre) @ butlast pat) @ (last pat # post))"
      unfolding dec .
    moreover have "length pat \<le> length ((x # pre) @ butlast pat)"
      using assms(1) by (cases pat) auto
    ultimately have "prefix pat ((x # pre) @ butlast pat)"
      by (rule prefix_append_short)
    then show False
      using Cons.prems by (auto dest: prefix_imp_sublist)
  qed
  moreover have "\<not> sublist pat (pre @ butlast pat)"
    using Cons.prems by (auto simp: sublist_Cons_right)
  ultimately show ?case
    using Cons.IH by simp
qed

lemma replace_localhost_absent:
  "\<not> sublist (str ''localhost'') u \<Longrightarrow> replace_localhost host u = u"
  by (simp add: replace_localhost_def str_includes_sublist)

lemma replace_localhost_first:
  assumes "0x24 \<notin> set host" and "\<not> sublist (str ''localhost'') (pre @ (str ''localhos''))"
  shows "replace_localhost host (pre @ (str ''localhost'') @ post) = pre @ host @ post"
proof -
  have "sublist (str ''localhost'') (pre @ (str ''localhost'') @ post)"
    unfolding sublist_def by blast
  moreover have "split_at_first (str ''localhost'') (pre @ (str ''localhost'') @ post) = Some (pre, post)"
    using assms(2) by (intro split_at_first_leftmost) (simp_all add: str_def)
  ultimately show ?thesis
    using assms(1)
    by (simp add: replace_localhost_def str_includes_sublist str_replace_def
        GetSubstitution_plain)
qed

lemma normalize_service_fields:
  "normalize_service host s =
     s\<lparr>url := replace_localhost host (url s),
       alt_url := map_option (replace_localhost host) (alt_url s)\<rparr>"
proof -
  have "str ''localhost'' \<noteq> []"
    by (simp add: str_def)
  then show ?thesis
    by (cases "alt_url s") (auto simp: normalize_service_def replace_localhost_def Let_def)
qed

lemma normalize_tab_fields:
  "normalize_tab host t =
     t\<lparr>mainUrl := replace_localhost host (mainUrl t),
       services := map (\<lambda>s. s\<lparr>url := replace_localhost host (url s),
                               alt_url := map_option (replace_localhost host) (alt_url s)\<rparr>)
                       (services t)\<rparr>"
  by (simp add: normalize_tab_def Let_def normalize_service_fields)

lemma config_after_load:
  "config (fst (complete_load host a (Fetched (Some d)) s)) = run_config_js host (Some d)"
  by (cases d)
     (auto simp: complete_load_def script_onload_def onload_try_def run_config_js_def Let_def
           split: list.splits)

section \<open>Facts about rendering\<close>

lemma render_toasts: "render (s\<lparr>toasts := t\<rparr>) = render s"
  by (simp add: render_def cong: sum.case_cong if_cong)







lemma failed_fetch_keeps_config:
  "complete_load host a FetchFailed s
     = (s\<lparr>error := Some (str ''Failed to load config.js file''), loading := False\<rparr>, Rejected)"
  by (simp add: complete_load_def script_onerror_def)

lemma unassigning_script_resolves_with_old_document:
  "a \<noteq> [] \<Longrightarrow> dashboardConfig s = Some d \<Longrightarrow>
   complete_load host a FetchedUnassigning s = (s\<lparr>config := Some d, loading := False\<rparr>, Resolved)"
  by (simp add: complete_load_def script_onload_def onload_try_def)

lemma missing_document_keeps_config:
  "config (fst (complete_load host a (Fetched None) s)) = config s \<and>
   snd (complete_load host a (Fetched None) s) = Rejected"
  by (simp add: complete_load_def script_onload_def onload_try_def run_config_js_def)

section \<open>Search: the claims\<close>

text \<open>
  C7: for every stored configuration (also none, also one without \<open>tabs\<close>) and every
  query that is empty or consists of white space only, \<open>searchResults\<close> is the empty
  sequence.
\<close>

theorem search_blank_query_empty:
  "\<forall>c \<in> set q. is_whitespace c \<Longrightarrow> searchResults cfg q = Inr []"
  by (simp add: searchResults_def trim_empty_iff)

theorem search_blank_query_empty_witness:
  "is_whitespace 0x20 \<and> is_whitespace 0x09 \<and>
   searchResults (Some (Shaped two_tabs)) [0x20, 0x09, 0x20] = Inr [] \<and>
   searchResults (Some (Shaped two_tabs)) [] = Inr []"
proof -
  have h: "\<forall>c \<in> set [0x20, 0x09, 0x20]. is_whitespace c"
    by (simp add: is_whitespace_def)
  have e: "\<forall>c \<in> set ([] :: jsstring). is_whitespace c"
    by simp
  show ?thesis
    using h search_blank_query_empty [OF h] search_blank_query_empty [OF e] by simp
qed




section \<open>Host name normalization\<close>

text \<open>
  C2 asks for every occurrence of \<open>localhost\<close> to be replaced. \<open>replace\<close> with a string
  pattern stops after the first one: served from \<open>example.org\<close>, the address
  \<open>http://localhost:8080/?next=http://localhost:9000\<close> keeps its second \<open>localhost\<close>.
\<close>

theorem localhost_second_occurrence_kept:
  "map mainUrl (tabs (normalize_config (str ''example.org'') localhost_config))
     = [(str ''http://example.org:8080/?next=http://localhost:9000'')] \<and>
   str_includes (str ''http://example.org:8080/?next=http://localhost:9000'') (str ''localhost'')"
  by (simp add: normalize_config_def normalize_tab_def localhost_config_def localhost_tab_def
      replace_localhost_def str_replace_def Let_def no_tooltip_def str_def)

text \<open>
  C2, amended: after a load that delivers a configuration \<open>C\<close>, the stored configuration
  is \<open>C\<close> with \<open>mainUrl\<close> of every tab and \<open>url\<close> and \<open>alt_url\<close> of every service
  rewritten and nothing else changed; the rewriting leaves an address without
  \<open>localhost\<close> as it is and replaces the first (leftmost) occurrence of \<open>localhost\<close> by
  the host name, keeping what stands before and after it. The host name is taken free of
  \<open>$\<close>, which \<open>replace\<close> would expand.
\<close>

theorem localhost_first_occurrence_replaced:
  assumes "0x24 \<notin> set host"
  shows "config (fst (complete_load host a (Fetched (Some (Shaped C))) s))
           = Some (Shaped (normalize_config host C)) \<and>
         normalize_config host C =
           C\<lparr>tabs := map (\<lambda>t. t\<lparr>mainUrl := replace_localhost host (mainUrl t),
                                services := map (\<lambda>s. s\<lparr>url := replace_localhost host (url s),
                                                        alt_url := map_option (replace_localhost host) (alt_url s)\<rparr>)
                                                (services t)\<rparr>)
                          (tabs C)\<rparr> \<and>
         (\<forall>u. \<not> sublist (str ''localhost'') u \<longrightarrow> replace_localhost host u = u) \<and>
         (\<forall>pre post. \<not> sublist (str ''localhost'') (pre @ (str ''localhos'')) \<longrightarrow>
              replace_localhost host (pre @ (str ''localhost'') @ post) = pre @ host @ post)"
proof (intro conjI allI impI)
  show "config (fst (complete_load host a (Fetched (Some (Shaped C))) s))
          = Some (Shaped (normalize_config host C))"
    by (simp add: config_after_load run_config_js_def)
  show "normalize_config host C =
           C\<lparr>tabs := map (\<lambda>t. t\<lparr>mainUrl := replace_localhost host (mainUrl t),
                                services := map (\<lambda>s. s\<lparr>url := replace_localhost host (url s),
                                                        alt_url := map_option (replace_localhost host) (alt_url s)\<rparr>)
                                                (services t)\<rparr>)
                          (tabs C)\<rparr>"
    by (simp add: normalize_config_def normalize_tab_fields)
  show "replace_localhost host u = u" if "\<not> sublist (str ''localhost'') u" for u
    using that by (rule replace_localhost_absent)
  show "replace_localhost host (pre @ (str ''localhost'') @ post) = pre @ host @ post"
    if "\<not> sublist (str ''localhost'') (pre @ (str ''localhos''))" for pre post
    using assms that by (rule replace_localhost_first)
qed

theorem localhost_first_occurrence_replaced_witness:
  "0x24 \<notin> set (str ''example.org'') \<and>
   replace_localhost (str ''example.org'') (str ''http://localhost:8080'') = (str ''http://example.org:8080'') \<and>
   replace_localhost (str ''example.org'') (str ''http://192.168.0.100'') = (str ''http://192.168.0.100'')"
proof -
  have h: "0x24 \<notin> set (str ''example.org'')"
    by (simp add: str_def)
  have a: "\<not> sublist (str ''localhost'') (str ''http://192.168.0.100'')"
    by (simp add: str_includes_sublist [symmetric] str_def)
  have b: "\<not> sublist (str ''localhost'') ((str ''http://'') @ (str ''localhos''))"
    by (simp add: str_includes_sublist [symmetric] str_def)
  from localhost_first_occurrence_replaced [OF h]
  have "replace_localhost (str ''example.org'') (str ''http://192.168.0.100'') = (str ''http://192.168.0.100'')"
    and "replace_localhost (str ''example.org'') ((str ''http://'') @ (str ''localhost'') @ (str '':8080''))
           = (str ''http://'') @ (str ''example.org'') @ (str '':8080'')"
    using a b by blast+
  with h show ?thesis
    by (simp add: str_def)
qed

section \<open>Loading\<close>

text \<open>
  C3: a load that fails must leave the stored configuration as it was and show the error
  view. Run: a first load of \<open>{tabs: []}\<close> succeeds and selects no tab; a reload then
  delivers \<open>{}\<close>. \<open>script.onload\<close> calls \<open>setConfig\<close> before it reads \<open>tabs.length\<close>,
  so the load is rejected with the malformed value already stored, and the next render
  raises a TypeError in \<open>activeTabData\<close> instead of reaching the error view. (A script
  that cannot be fetched, or that assigns \<open>null\<close>, does keep the configuration:
  \<open>failed_fetch_keeps_config\<close>, \<open>missing_document_keeps_config\<close>.)
\<close>

theorem shapeless_document_replaces_config:
  "snd (complete_load (str ''example.org'') [] (Fetched (Some Shapeless))
          (loadConfig_start (after_first_load (str ''example.org'') (Some (Shaped empty_config)))))
     = Rejected \<and>
   config (after_first_load (str ''example.org'') (Some (Shaped empty_config)))
     = Some (Shaped empty_config) \<and>
   config (fst (complete_load (str ''example.org'') [] (Fetched (Some Shapeless))
          (loadConfig_start (after_first_load (str ''example.org'') (Some (Shaped empty_config))))))
     = Some Shapeless \<and>
   render (fst (complete_load (str ''example.org'') [] (Fetched (Some Shapeless))
          (loadConfig_start (after_first_load (str ''example.org'') (Some (Shaped empty_config))))))
     = Inl TypeError"
  by (simp add: load_eval render_eval search_eval samples run_samples)




text \<open>
  C10: a first load (no tab selected, component mounted, empty search text) that delivers
  \<open>{tabs: []}\<close> resolves; it changes \<open>loading\<close>, \<open>error\<close>, the stored configuration and the
  global only, so the active tab stays empty; the render that follows is the dashboard
  with neither search panel nor tab content.
\<close>

theorem empty_tabs_load_ready:
  assumes "activeTab s = []" and "mounted s" and "searchQuery s = []"
  shows "complete_load host [] (Fetched (Some (Shaped \<lparr>tabs = []\<rparr>))) (loadConfig_start s)
           = (s\<lparr>loading := False, error := None, config := Some (Shaped \<lparr>tabs = []\<rparr>),
                dashboardConfig := Some (Shaped \<lparr>tabs = []\<rparr>)\<rparr>, Resolved) \<and>
         activeTab (fst (complete_load host [] (Fetched (Some (Shaped \<lparr>tabs = []\<rparr>)))
                      (loadConfig_start s))) = [] \<and>
         render (fst (complete_load host [] (Fetched (Some (Shaped \<lparr>tabs = []\<rparr>)))
                      (loadConfig_start s)))
           = Inr (Dashboard \<lparr>dashboard_layout = (if isMobile s then Mobile else Desktop),
                             search_panel = None, tab_content = None\<rparr>)"
proof -
  have e: "complete_load host [] (Fetched (Some (Shaped \<lparr>tabs = []\<rparr>))) (loadConfig_start s)
           = (s\<lparr>loading := False, error := None, config := Some (Shaped \<lparr>tabs = []\<rparr>),
                dashboardConfig := Some (Shaped \<lparr>tabs = []\<rparr>)\<rparr>, Resolved)"
    by (simp add: complete_load_def script_onload_def onload_try_def run_config_js_def
        loadConfig_start_def normalize_config_def Let_def)
  show ?thesis
    unfolding e using assms
    by (simp add: render_def searchResults_def trim_def activeTabData_def truthy_def)
qed

theorem empty_tabs_load_ready_witness:
  "activeTab mounted_state = [] \<and> mounted mounted_state \<and> searchQuery mounted_state = [] \<and>
   snd (complete_load (str ''example.org'') [] (Fetched (Some (Shaped \<lparr>tabs = []\<rparr>)))
          (loadConfig_start mounted_state)) = Resolved \<and>
   activeTab (fst (complete_load (str ''example.org'') [] (Fetched (Some (Shaped \<lparr>tabs = []\<rparr>)))
                (loadConfig_start mounted_state))) = [] \<and>
   render (fst (complete_load (str ''example.org'') [] (Fetched (Some (Shaped \<lparr>tabs = []\<rparr>)))
                (loadConfig_start mounted_state)))
     = Inr (Dashboard \<lparr>dashboard_layout = Desktop, search_panel = None, tab_content = None\<rparr>)"
proof -
  have h: "activeTab mounted_state = []" "mounted mounted_state" "searchQuery mounted_state = []"
    and m: "isMobile mounted_state = False"
    by (simp_all add: mounted_state_def loadConfig_start_def initial_state_def)
  note t = empty_tabs_load_ready [OF h, of "(str ''example.org'')"]
  from conjunct1 [OF t]
  have a: "snd (complete_load (str ''example.org'') [] (Fetched (Some (Shaped \<lparr>tabs = []\<rparr>)))
                  (loadConfig_start mounted_state)) = Resolved"
    by simp
  note b = conjunct1 [OF conjunct2 [OF t]]
  from conjunct2 [OF conjunct2 [OF t]] m
  have c: "render (fst (complete_load (str ''example.org'') [] (Fetched (Some (Shaped \<lparr>tabs = []\<rparr>)))
                (loadConfig_start mounted_state)))
     = Inr (Dashboard \<lparr>dashboard_layout = Desktop, search_panel = None, tab_content = None\<rparr>)"
    by simp
  from h a b c show ?thesis
    by blast
qed

text \<open>
  C9 asks that the newer of two overlapping loads determines the configuration even when
  the older one completes last. There is no request counter: the handler that runs last
  stores its document. Here a reload of \<open>two_tabs\<close> completes first and the older load of
  \<open>stale_config\<close> after it.
\<close>

theorem stale_load_overwrites_newer:
  "config (fst (complete_load (str ''example.org'') (str ''a'') (Fetched (Some (Shaped stale_config)))
             (fst (complete_load (str ''example.org'') (str ''a'') (Fetched (Some (Shaped two_tabs)))
                (loadConfig_start (loadConfig_start
                   (after_first_load (str ''example.org'') (Some (Shaped stale_config)))))))))
     = Some (Shaped stale_config) \<and>
   Some (Shaped stale_config) \<noteq> Some (Shaped two_tabs)"
  by (simp add: load_eval render_eval search_eval samples run_samples)

text \<open>
  C9, amended: of two loads that both deliver a document, the one that completes last
  determines the stored configuration, whichever was started first and whatever the
  state was before: when the older load completes after the newer one, the stored
  configuration is the older load's document.
\<close>

theorem last_completed_load_wins:
  "config (fst (complete_load host a2 (Fetched (Some older))
             (fst (complete_load host a1 (Fetched (Some newer)) s))))
     = run_config_js host (Some older)"
  by (rule config_after_load)

section \<open>Search mode and rendering\<close>

text \<open>
  C4 makes search mode depend on the trimmed query. Both layouts test \<open>searchQuery\<close>
  itself: a query of one space shows the search panel, with no results, and hides the
  content of the active tab.
\<close>

theorem whitespace_query_enters_search_mode:
  "trim [0x20] = [] \<and>
   render ((after_first_load (str ''example.org'') (Some (Shaped two_tabs)))\<lparr>searchQuery := [0x20]\<rparr>)
     = Inr (Dashboard \<lparr>dashboard_layout = Desktop, search_panel = Some [], tab_content = None\<rparr>)"
  by (simp add: load_eval render_eval search_eval samples run_samples)

text \<open>
  C4, amended: whenever a render shows the dashboard, the search panel is shown exactly
  when the search text is a non-empty string (white space included); with a non-empty
  search text no tab content is shown, and with the empty search text the tab content is
  what \<open>activeTabData\<close> found.
\<close>

theorem search_mode_iff_query_nonempty:
  assumes "render s = Inr (Dashboard d)"
  shows "(search_panel d \<noteq> None) = (searchQuery s \<noteq> []) \<and>
         (if searchQuery s = [] then activeTabData (config s) (activeTab s) = Inr (tab_content d)
          else tab_content d = None)"
  using assms
  by (auto simp: render_def split: sum.splits if_splits)

theorem search_mode_iff_query_nonempty_witness:
  "render ((after_first_load (str ''example.org'') (Some (Shaped two_tabs)))\<lparr>searchQuery := [0x20]\<rparr>)
     = Inr (Dashboard \<lparr>dashboard_layout = Desktop, search_panel = Some [], tab_content = None\<rparr>) \<and>
   (search_panel \<lparr>dashboard_layout = Desktop, search_panel = Some [], tab_content = None\<rparr> \<noteq> None)
     = (searchQuery ((after_first_load (str ''example.org'') (Some (Shaped two_tabs)))\<lparr>searchQuery := [0x20]\<rparr>) \<noteq> [])"
proof -
  have r: "render ((after_first_load (str ''example.org'') (Some (Shaped two_tabs)))\<lparr>searchQuery := [0x20]\<rparr>)
     = Inr (Dashboard \<lparr>dashboard_layout = Desktop, search_panel = Some [], tab_content = None\<rparr>)"
    by (simp add: load_eval render_eval search_eval samples run_samples)
  from search_mode_iff_query_nonempty [OF r] r show ?thesis
    by blast
qed

text \<open>
  C5: rendering must never raise, whatever the query. The query \<open>(\<close> matches the
  service MinIO of the shipped configuration (its description has a parenthesis);
  \<open>highlightText\<close> then builds the pattern \<open>(()\<close>, whose group is not closed, and the
  SyntaxError of the constructor leaves the render.
\<close>

theorem highlight_unescaped_query_raises:
  "highlightText (str ''MinIO'') (str ''('') = Inl SyntaxError \<and>
   render ((after_first_load (str ''192.168.0.120'') (Some (Shaped media_config)))\<lparr>searchQuery := (str ''('')\<rparr>)
     = Inl SyntaxError"
  by (simp add: load_eval render_eval search_eval samples run_samples)

section \<open>Clipboard\<close>

text \<open>
  C8 has \<open>copyToClipboard\<close> report a CopyFailed condition to its caller and present the
  URL for copying by hand. On a platform without the secure clipboard where \<open>execCommand\<close>
  answers \<open>false\<close>, the promise the caller holds settles exactly as on a platform where
  the copy succeeds; the only trace of the failure is the "Copy Failed" toast; the state
  left behind is the same whatever the URL and the label were; and neither the title nor
  the description of the toast contains the URL.
\<close>

theorem copy_failure_reaches_no_caller:
  "snd (copyToClipboard no_clipboard (str ''http://x:32400'') (str ''Plex'') mounted_state)
     = snd (copyToClipboard working_clipboard (str ''http://x:32400'') (str ''Plex'') mounted_state) \<and>
   toasts (fst (copyToClipboard no_clipboard (str ''http://x:32400'') (str ''Plex'') mounted_state))
     = [copy_failed_toast] \<and>
   fst (copyToClipboard no_clipboard (str ''http://x:32400'') (str ''Plex'') mounted_state)
     = fst (copyToClipboard no_clipboard (str ''http://y:3000'') (str ''Gitea'') mounted_state) \<and>
   \<not> str_includes (toast_title copy_failed_toast) (str ''http://x:32400'') \<and>
   \<not> str_includes (toast_description copy_failed_toast) (str ''http://x:32400'')"
  by (simp add: copyToClipboard_def copy_try_def no_clipboard_def working_clipboard_def
      mounted_state_def loadConfig_start_def initial_state_def copy_failed_toast_def str_def)

text \<open>
  C8, amended: when the secure clipboard write is unavailable or rejected and
  \<open>execCommand\<close> does not succeed either (it returns \<open>false\<close> or raises),
  \<open>copyToClipboard\<close> raises nothing and its promise is fulfilled without a value, as on
  success; the failure is shown to the user as the destructive "Copy Failed" toast, which
  asks for a manual copy; nothing else changes: the configuration and the copied-url
  marker are as before and the render is the same.
\<close>

theorem copy_failure_shows_toast_only:
  assumes "\<not> (secure_clipboard env \<and> writeText_fulfilled env)"
    and "execCommand env \<noteq> ReturnsTrue"
  shows "copyToClipboard env u label s = (s\<lparr>toasts := toasts s @ [copy_failed_toast]\<rparr>, Resolved) \<and>
         config (fst (copyToClipboard env u label s)) = config s \<and>
         copiedUrl (fst (copyToClipboard env u label s)) = copiedUrl s \<and>
         render (fst (copyToClipboard env u label s)) = render s"
proof -
  from assms have "copy_try env \<noteq> None"
    by (cases "execCommand env") (auto simp: copy_try_def)
  then have e: "copyToClipboard env u label s
                  = (s\<lparr>toasts := toasts s @ [copy_failed_toast]\<rparr>, Resolved)"
    by (auto simp: copyToClipboard_def)
  show ?thesis
    unfolding e by (simp add: render_toasts)
qed

theorem copy_failure_shows_toast_only_witness:
  "\<not> (secure_clipboard no_clipboard \<and> writeText_fulfilled no_clipboard) \<and>
   execCommand no_clipboard \<noteq> ReturnsTrue \<and>
   copyToClipboard no_clipboard (str ''http://x:32400'') (str ''Plex'') mounted_state
     = (mounted_state\<lparr>toasts := toasts mounted_state @ [copy_failed_toast]\<rparr>, Resolved) \<and>
   copiedUrl (fst (copyToClipboard no_clipboard (str ''http://x:32400'') (str ''Plex'') mounted_state))
     = None"
proof -
  have h1: "\<not> (secure_clipboard no_clipboard \<and> writeText_fulfilled no_clipboard)"
    by (simp add: no_clipboard_def)
  have h2: "execCommand no_clipboard \<noteq> ReturnsTrue"
    by (simp add: no_clipboard_def)
  have c: "copiedUrl mounted_state = None"
    by (simp add: mounted_state_def loadConfig_start_def initial_state_def)
  from copy_failure_shows_toast_only
         [OF h1 h2, of "str ''http://x:32400''" "str ''Plex''" mounted_state] h1 h2 c
  show ?thesis
    by simp
qed

end
